theory Spec2Isabelle
  imports Main
begin

section \<open>JavaScript values and built-ins used by the client\<close>

text \<open>
  The client is written in JavaScript. The values it handles are plain JSON data (request
  bodies, the optional close amount) and strings (addresses, credentials, identifiers).
  A value that may be \<open>undefined\<close> (an omitted argument, an absent property) is an
  \<open>option\<close>, with \<open>None\<close> for \<open>undefined\<close>.

  Scope of the model: strings are lists of 8-bit characters, so it covers ASCII text;
  numbers are the safe integers, of magnitude below \<open>2^53\<close>, which JavaScript holds and
  prints exactly (fractions, \<open>NaN\<close> and larger numbers have no value here); an object is
  the list of its properties in enumeration order.
\<close>

datatype json =
    JNull
  | JBool bool
  | JNum int
  | JStr string
  | JArr "json list"
  | JObj "(string \<times> json) list"

text \<open>\<open>ToBoolean\<close>: what \<open>if (x)\<close>, \<open>x ? a : b\<close>, \<open>!x\<close> and \<open>x || y\<close> test.\<close>

fun js_truthy :: "json \<Rightarrow> bool" where
  "js_truthy JNull = False"
| "js_truthy (JBool b) = b"
| "js_truthy (JNum n) = (n \<noteq> 0)"
| "js_truthy (JStr s) = (s \<noteq> [])"
| "js_truthy (JArr xs) = True"
| "js_truthy (JObj kvs) = True"

definition truthy :: "json option \<Rightarrow> bool" where
  "truthy v = (case v of None \<Rightarrow> False | Some x \<Rightarrow> js_truthy x)"

text \<open>
  Decimal digits of a non-negative integer, as \<open>Number.prototype.toString\<close> prints a safe
  integer; \<open>Date.now()\<close> is one.
\<close>

definition digit_char :: "nat \<Rightarrow> char" where
  "digit_char d = ''0123456789'' ! d"

fun decimal :: "nat \<Rightarrow> string" where
  "decimal n = (if n < 10 then [digit_char n] else decimal (n div 10) @ [digit_char (n mod 10)])"

declare decimal.simps [simp del]

definition number_toString :: "int \<Rightarrow> string" where
  "number_toString i = (if i < 0 then ''-'' @ decimal (nat (- i)) else decimal (nat i))"

text \<open>\<open>Array.prototype.join\<close> on strings.\<close>

fun join :: "string \<Rightarrow> string list \<Rightarrow> string" where
  "join sep [] = []"
| "join sep [x] = x"
| "join sep (x # y # ys) = x @ sep @ join sep (y # ys)"

text \<open>
  \<open>ToString\<close>, the coercion applied by string concatenation with \<open>+\<close> and by template
  literals. A plain object prints as \<open>[object Object]\<close>; an array joins its elements with
  commas, \<open>null\<close> elements printing as nothing.
\<close>

fun js_toString :: "json \<Rightarrow> string" where
  "js_toString JNull = ''null''"
| "js_toString (JBool b) = (if b then ''true'' else ''false'')"
| "js_toString (JNum n) = number_toString n"
| "js_toString (JStr s) = s"
| "js_toString (JArr xs) =
     join '','' (map (\<lambda>x. if x = JNull then [] else js_toString x) xs)"
| "js_toString (JObj kvs) = ''[object Object]''"

text \<open>\<open>JSON.stringify\<close> without indentation: string quoting, then the value printer.\<close>

definition hex_lower :: "nat \<Rightarrow> char" where
  "hex_lower d = ''0123456789abcdef'' ! d"

definition quote_char :: "char \<Rightarrow> string" where
  "quote_char c =
     (if c = CHR 0x22 then [CHR 0x5C, CHR 0x22]
      else if c = CHR 0x5C then [CHR 0x5C, CHR 0x5C]
      else if c = CHR 0x08 then [CHR 0x5C, CHR ''b'']
      else if c = CHR 0x0C then [CHR 0x5C, CHR ''f'']
      else if c = CHR 0x0A then [CHR 0x5C, CHR ''n'']
      else if c = CHR 0x0D then [CHR 0x5C, CHR ''r'']
      else if c = CHR 0x09 then [CHR 0x5C, CHR ''t'']
      else if (of_char c :: nat) < 32
        then [CHR 0x5C] @ ''u00'' @ [hex_lower (of_char c div 16), hex_lower (of_char c mod 16)]
      else [c])"

definition QuoteJSONString :: "string \<Rightarrow> string" where
  "QuoteJSONString s = [CHR 0x22] @ concat (map quote_char s) @ [CHR 0x22]"

fun JSON_stringify :: "json \<Rightarrow> string" where
  "JSON_stringify JNull = ''null''"
| "JSON_stringify (JBool b) = (if b then ''true'' else ''false'')"
| "JSON_stringify (JNum n) = number_toString n"
| "JSON_stringify (JStr s) = QuoteJSONString s"
| "JSON_stringify (JArr xs) = ''['' @ join '','' (map JSON_stringify xs) @ '']''"
| "JSON_stringify (JObj kvs) =
     ''{'' @ join '','' (map (\<lambda>(k, v). QuoteJSONString k @ '':'' @ JSON_stringify v) kvs) @ ''}''"

text \<open>\<open>String.prototype.toUpperCase\<close> on ASCII text.\<close>

definition toUpperCase_char :: "char \<Rightarrow> char" where
  "toUpperCase_char c =
     (case map_of (zip ''abcdefghijklmnopqrstuvwxyz'' ''ABCDEFGHIJKLMNOPQRSTUVWXYZ'') c of
        Some u \<Rightarrow> u
      | None \<Rightarrow> c)"

definition toUpperCase :: "string \<Rightarrow> string" where
  "toUpperCase s = map toUpperCase_char s"

text \<open>
  \<open>encodeURIComponent\<close>: the unreserved characters stay, every other byte becomes
  \<open>%XX\<close> with upper-case hexadecimal digits.
\<close>

definition uriUnreserved :: string where
  "uriUnreserved =
     ''ABCDEFGHIJKLMNOPQRSTUVWXYZabcdefghijklmnopqrstuvwxyz0123456789-_.!~*()'' @ [CHR 0x27]"

definition hex_upper :: "nat \<Rightarrow> char" where
  "hex_upper d = ''0123456789ABCDEF'' ! d"

definition encode_char :: "char \<Rightarrow> string" where
  "encode_char c =
     (if c \<in> set uriUnreserved then [c]
      else [CHR ''%'', hex_upper (of_char c div 16), hex_upper (of_char c mod 16)])"

definition encodeURIComponent :: "string \<Rightarrow> string" where
  "encodeURIComponent s = concat (map encode_char s)"

text \<open>
  What the code takes from its environment: the clock (\<open>Date.now()\<close>, milliseconds since
  the epoch) and the HMAC-SHA256 and Base64 routines of the crypto library
  (\<open>createHmac('sha256', key).update(msg).digest('base64')\<close> in Node,
  \<open>CryptoJS.enc.Base64.stringify(CryptoJS.HmacSHA256(msg, key))\<close> in the browser).
  They are parameters of the model: \<open>hmac_sha256 rt key msg\<close> is the raw digest.
\<close>

record runtime =
  Date_now :: nat
  hmac_sha256 :: "string \<Rightarrow> string \<Rightarrow> string"
  base64 :: "string \<Rightarrow> string"

text \<open>Every failure of the client is a thrown \<open>new Error(message)\<close>.\<close>

datatype error = Error string


section \<open>The Node client: \<open>src/ttwebclient.mjs\<close>\<close>

text \<open>
  The axios request config the operations build: \<open>method\<close>, \<open>url\<close>, the optional
  \<open>data\<close> (the body, as the caller's object) and the optional \<open>headers\<close> object.
\<close>

record config =
  "method" :: string
  url :: string
  data :: "json option"
  headers :: "(string \<rightharpoonup> string) option"

text \<open>The object spread \<open>{...config.headers}\<close>: an absent object contributes no entry.\<close>

definition spread :: "(string \<rightharpoonup> string) option \<Rightarrow> (string \<rightharpoonup> string)" where
  "spread h = (case h of None \<Rightarrow> Map.empty | Some m \<Rightarrow> m)"

text \<open>
  The last operand of line 22, \<open>(config.data ? JSON.stringify(config.data) : "")\<close>:
  what the body contributes to the signed text.
\<close>

definition body_text :: "json option \<Rightarrow> string" where
  "body_text config_data =
     (case config_data of
        None \<Rightarrow> []
      | Some d \<Rightarrow> if js_truthy d then JSON_stringify d else [])"

text \<open>
  The local \<open>signature\<close> of \<open>_signRequest\<close> (line 22): the text that is signed.
  \<open>timestamp + web_api_id\<close> is a number plus a string, a concatenation.
\<close>

definition signature_text :: "nat \<Rightarrow> string \<Rightarrow> string \<Rightarrow> config \<Rightarrow> string" where
  "signature_text timestamp web_api_id web_api_key config =
     decimal timestamp @ web_api_id @ web_api_key @ toUpperCase (method config) @ url config @
     body_text (data config)"

definition authorization :: "runtime \<Rightarrow> string \<Rightarrow> string \<Rightarrow> string \<Rightarrow> config \<Rightarrow> string" where
  "authorization rt web_api_id web_api_key web_api_secret config =
     (let timestamp = Date_now rt;
          signature = signature_text timestamp web_api_id web_api_key config;
          hash = base64 rt (hmac_sha256 rt web_api_secret signature)
      in ''HMAC '' @ web_api_id @ '':'' @ web_api_key @ '':'' @ decimal timestamp @ '':'' @ hash)"

text \<open>
  \<open>_signRequest\<close> (lines 13-32). A credential fails the test \<open>!x\<close> when it is
  \<open>undefined\<close> or the empty string. The result is the thrown error or the config with
  its \<open>headers\<close> replaced.
\<close>

definition signRequest_axios ::
  "runtime \<Rightarrow> config \<Rightarrow> string option \<Rightarrow> string option \<Rightarrow> string option \<Rightarrow> error + config" where
  "signRequest_axios rt config web_api_id web_api_key web_api_secret =
     (case web_api_id of
        None \<Rightarrow> Inl (Error ''TickTrader Web API Id should be valid!'')
      | Some i \<Rightarrow>
          if i = [] then Inl (Error ''TickTrader Web API Id should be valid!'')
          else
     (case web_api_key of
        None \<Rightarrow> Inl (Error ''TickTrader Web API Key should be valid!'')
      | Some k \<Rightarrow>
          if k = [] then Inl (Error ''TickTrader Web API Key should be valid!'')
          else
     (case web_api_secret of
        None \<Rightarrow> Inl (Error ''TickTrader Web API Secret should be valid!'')
      | Some s \<Rightarrow>
          if s = [] then Inl (Error ''TickTrader Web API Secret should be valid!'')
          else
            Inr (config\<lparr>headers :=
                   Some ((spread (headers config))
                           (''Authorization'' \<mapsto> authorization rt i k s config))\<rparr>))))"

record client =
  web_api_address :: string
  web_api_id :: "string option"
  web_api_key :: "string option"
  web_api_secret :: "string option"

text \<open>The constructor (lines 34-42) refuses an absent or empty address.\<close>

definition TickTraderWebClient ::
  "string option \<Rightarrow> string option \<Rightarrow> string option \<Rightarrow> string option \<Rightarrow> error + client" where
  "TickTraderWebClient address wid wkey wsecret =
     (case address of
        None \<Rightarrow> Inl (Error ''TickTrader Web API address should be valid!'')
      | Some a \<Rightarrow>
          if a = [] then Inl (Error ''TickTrader Web API address should be valid!'')
          else Inr \<lparr>web_api_address = a, web_api_id = wid, web_api_key = wkey,
                     web_api_secret = wsecret\<rparr>)"

text \<open>
  What reaches the transport: \<open>axios.get(url)\<close> for a public operation, \<open>axios(config)\<close>
  for a private one. In \<open>axios(_signRequest(...))\<close> the argument is evaluated first, so
  an error thrown by \<open>_signRequest\<close> leaves the operation before \<open>axios\<close> is called:
  the result of an operation is either that error or the one transport call it makes.
\<close>

datatype transport_call = AxiosGet string | Axios config

definition axios_get :: "string \<Rightarrow> error + transport_call" where
  "axios_get u = Inr (AxiosGet u)"

definition axios :: "error + config \<Rightarrow> error + transport_call" where
  "axios r = (case r of Inl e \<Rightarrow> Inl e | Inr c \<Rightarrow> Inr (Axios c))"

text \<open>The calls a spy transport records for an operation's result.\<close>

definition transport_calls :: "error + transport_call \<Rightarrow> transport_call list" where
  "transport_calls r = (case r of Inl e \<Rightarrow> [] | Inr t \<Rightarrow> [t])"

definition request_url :: "transport_call \<Rightarrow> string" where
  "request_url t = (case t of AxiosGet u \<Rightarrow> u | Axios c \<Rightarrow> url c)"

text \<open>The private operations all sign with the client's own credentials.\<close>

definition signed :: "runtime \<Rightarrow> client \<Rightarrow> config \<Rightarrow> error + transport_call" where
  "signed rt this config =
     axios (signRequest_axios rt config (web_api_id this) (web_api_key this) (web_api_secret this))"

subsection \<open>Public operations (lines 48-118)\<close>

definition getPublicTradeSession :: "client \<Rightarrow> error + transport_call" where
  "getPublicTradeSession this = axios_get (web_api_address this @ ''/api/v2/public/tradesession'')"

definition getPublicAllCurrencies :: "client \<Rightarrow> error + transport_call" where
  "getPublicAllCurrencies this = axios_get (web_api_address this @ ''/api/v2/public/currency'')"

definition getPublicCurrency :: "client \<Rightarrow> string \<Rightarrow> error + transport_call" where
  "getPublicCurrency this currency =
     axios_get (web_api_address this @ ''/api/v2/public/currency/'' @ encodeURIComponent currency)"

definition getPublicAllSymbols :: "client \<Rightarrow> error + transport_call" where
  "getPublicAllSymbols this = axios_get (web_api_address this @ ''/api/v2/public/symbol'')"

definition getPublicSymbol :: "client \<Rightarrow> string \<Rightarrow> error + transport_call" where
  "getPublicSymbol this symbol =
     axios_get (web_api_address this @ ''/api/v2/public/symbol/'' @ encodeURIComponent symbol)"

definition getPublicAllTicks :: "client \<Rightarrow> error + transport_call" where
  "getPublicAllTicks this = axios_get (web_api_address this @ ''/api/v2/public/tick'')"

definition getPublicTick :: "client \<Rightarrow> string \<Rightarrow> error + transport_call" where
  "getPublicTick this symbol =
     axios_get (web_api_address this @ ''/api/v2/public/tick/'' @ encodeURIComponent symbol)"

definition getPublicAllTicksLevel2 :: "client \<Rightarrow> error + transport_call" where
  "getPublicAllTicksLevel2 this = axios_get (web_api_address this @ ''/api/v2/public/level2'')"

definition getPublicTickLevel2 :: "client \<Rightarrow> string \<Rightarrow> error + transport_call" where
  "getPublicTickLevel2 this symbol =
     axios_get (web_api_address this @ ''/api/v2/public/level2/'' @ encodeURIComponent symbol)"

subsection \<open>Private operations (lines 124-457)\<close>

definition getAccount :: "runtime \<Rightarrow> client \<Rightarrow> error + transport_call" where
  "getAccount rt this =
     signed rt this \<lparr>method = ''GET'', url = web_api_address this @ ''/api/v2/account'',
                      data = None, headers = None\<rparr>"

definition getTradeSession :: "runtime \<Rightarrow> client \<Rightarrow> error + transport_call" where
  "getTradeSession rt this =
     signed rt this \<lparr>method = ''GET'', url = web_api_address this @ ''/api/v2/tradesession'',
                      data = None, headers = None\<rparr>"

definition getAllCurrencies :: "runtime \<Rightarrow> client \<Rightarrow> error + transport_call" where
  "getAllCurrencies rt this =
     signed rt this \<lparr>method = ''GET'', url = web_api_address this @ ''/api/v2/currency'',
                      data = None, headers = None\<rparr>"

definition getCurrency :: "runtime \<Rightarrow> client \<Rightarrow> string \<Rightarrow> error + transport_call" where
  "getCurrency rt this currency =
     signed rt this \<lparr>method = ''GET'', url = web_api_address this @ ''/api/v2/currency/'' @ encodeURIComponent currency,
                      data = None, headers = None\<rparr>"

definition getAllSymbols :: "runtime \<Rightarrow> client \<Rightarrow> error + transport_call" where
  "getAllSymbols rt this =
     signed rt this \<lparr>method = ''GET'', url = web_api_address this @ ''/api/v2/symbol'',
                      data = None, headers = None\<rparr>"

definition getSymbol :: "runtime \<Rightarrow> client \<Rightarrow> string \<Rightarrow> error + transport_call" where
  "getSymbol rt this symbol =
     signed rt this \<lparr>method = ''GET'', url = web_api_address this @ ''/api/v2/symbol/'' @ encodeURIComponent symbol,
                      data = None, headers = None\<rparr>"

definition getAllTicks :: "runtime \<Rightarrow> client \<Rightarrow> error + transport_call" where
  "getAllTicks rt this =
     signed rt this \<lparr>method = ''GET'', url = web_api_address this @ ''/api/v2/tick'',
                      data = None, headers = None\<rparr>"

definition getTick :: "runtime \<Rightarrow> client \<Rightarrow> string \<Rightarrow> error + transport_call" where
  "getTick rt this symbol =
     signed rt this \<lparr>method = ''GET'', url = web_api_address this @ ''/api/v2/tick/'' @ encodeURIComponent symbol,
                      data = None, headers = None\<rparr>"

definition getAllTicksLevel2 :: "runtime \<Rightarrow> client \<Rightarrow> error + transport_call" where
  "getAllTicksLevel2 rt this =
     signed rt this \<lparr>method = ''GET'', url = web_api_address this @ ''/api/v2/level2'',
                      data = None, headers = None\<rparr>"

definition getTickLevel2 :: "runtime \<Rightarrow> client \<Rightarrow> string \<Rightarrow> error + transport_call" where
  "getTickLevel2 rt this symbol =
     signed rt this \<lparr>method = ''GET'', url = web_api_address this @ ''/api/v2/level2/'' @ encodeURIComponent symbol,
                      data = None, headers = None\<rparr>"

definition getAllAssets :: "runtime \<Rightarrow> client \<Rightarrow> error + transport_call" where
  "getAllAssets rt this =
     signed rt this \<lparr>method = ''GET'', url = web_api_address this @ ''/api/v2/asset'',
                      data = None, headers = None\<rparr>"

definition getAsset :: "runtime \<Rightarrow> client \<Rightarrow> string \<Rightarrow> error + transport_call" where
  "getAsset rt this currency =
     signed rt this \<lparr>method = ''GET'', url = web_api_address this @ ''/api/v2/asset/'' @ encodeURIComponent currency,
                      data = None, headers = None\<rparr>"

definition getAllPositions :: "runtime \<Rightarrow> client \<Rightarrow> error + transport_call" where
  "getAllPositions rt this =
     signed rt this \<lparr>method = ''GET'', url = web_api_address this @ ''/api/v2/position'',
                      data = None, headers = None\<rparr>"

definition getPosition :: "runtime \<Rightarrow> client \<Rightarrow> string \<Rightarrow> error + transport_call" where
  "getPosition rt this symbol =
     signed rt this \<lparr>method = ''GET'', url = web_api_address this @ ''/api/v2/position/'' @ encodeURIComponent symbol,
                      data = None, headers = None\<rparr>"

definition getAllTrades :: "runtime \<Rightarrow> client \<Rightarrow> error + transport_call" where
  "getAllTrades rt this =
     signed rt this \<lparr>method = ''GET'', url = web_api_address this @ ''/api/v2/trade'',
                      data = None, headers = None\<rparr>"

text \<open>\<open>getTrade\<close> (lines 315-321) appends \<open>tradeId\<close> as it is.\<close>

definition getTrade :: "runtime \<Rightarrow> client \<Rightarrow> string \<Rightarrow> error + transport_call" where
  "getTrade rt this tradeId =
     signed rt this \<lparr>method = ''GET'', url = web_api_address this @ ''/api/v2/trade/'' @ tradeId,
                      data = None, headers = None\<rparr>"

definition createTrade :: "runtime \<Rightarrow> client \<Rightarrow> json option \<Rightarrow> error + transport_call" where
  "createTrade rt this request =
     signed rt this \<lparr>method = ''POST'', url = web_api_address this @ ''/api/v2/trade'',
                      data = request,
                      headers = Some [''Content-Type'' \<mapsto> ''application/json'']\<rparr>"

definition modifyTrade :: "runtime \<Rightarrow> client \<Rightarrow> json option \<Rightarrow> error + transport_call" where
  "modifyTrade rt this request =
     signed rt this \<lparr>method = ''PUT'', url = web_api_address this @ ''/api/v2/trade'',
                      data = request,
                      headers = Some [''Content-Type'' \<mapsto> ''application/json'']\<rparr>"

definition cancelTrade :: "runtime \<Rightarrow> client \<Rightarrow> string \<Rightarrow> error + transport_call" where
  "cancelTrade rt this tradeId =
     signed rt this \<lparr>method = ''DELETE'',
                      url = web_api_address this @ ''/api/v2/trade?type=Cancel&id='' @ tradeId,
                      data = None, headers = None\<rparr>"

text \<open>
  \<open>closeTrade\<close> (lines 394-403): the template literal with \<open>&amount=${amount}\<close> is
  chosen when \<open>amount\<close> is truthy.
\<close>

definition closeTrade ::
  "runtime \<Rightarrow> client \<Rightarrow> string \<Rightarrow> json option \<Rightarrow> error + transport_call" where
  "closeTrade rt this tradeId amount =
     (let url =
        (case amount of
           None \<Rightarrow> web_api_address this @ ''/api/v2/trade?type=Close&id='' @ tradeId
         | Some a \<Rightarrow>
             if js_truthy a
             then web_api_address this @ ''/api/v2/trade?type=Close&id='' @ tradeId
                    @ ''&amount='' @ js_toString a
             else web_api_address this @ ''/api/v2/trade?type=Close&id='' @ tradeId)
      in signed rt this \<lparr>method = ''DELETE'', url = url, data = None, headers = None\<rparr>)"

definition closeByTrade ::
  "runtime \<Rightarrow> client \<Rightarrow> string \<Rightarrow> string \<Rightarrow> error + transport_call" where
  "closeByTrade rt this tradeId byTradeId =
     signed rt this \<lparr>method = ''DELETE'',
                      url = web_api_address this @ ''/api/v2/trade?type=CloseBy&id='' @ tradeId
                              @ ''&byid='' @ byTradeId,
                      data = None, headers = None\<rparr>"


definition getTradeHistory :: "runtime \<Rightarrow> client \<Rightarrow> json option \<Rightarrow> error + transport_call" where
  "getTradeHistory rt this request =
     signed rt this \<lparr>method = ''POST'', url = web_api_address this @ ''/api/v2/tradehistory'',
                      data = request,
                      headers = Some [''Content-Type'' \<mapsto> ''application/json'']\<rparr>"

definition getTradeHistoryByTradeId ::
  "runtime \<Rightarrow> client \<Rightarrow> string \<Rightarrow> json option \<Rightarrow> error + transport_call" where
  "getTradeHistoryByTradeId rt this tradeId request =
     signed rt this \<lparr>method = ''POST'',
                      url = web_api_address this @ ''/api/v2/tradehistory/'' @ tradeId,
                      data = request,
                      headers = Some [''Content-Type'' \<mapsto> ''application/json'']\<rparr>"

text \<open>A caller's invocation of one operation of the client, and what it does.\<close>

datatype call =
    GetPublicTradeSession
  | GetPublicAllCurrencies
  | GetPublicCurrency string
  | GetPublicAllSymbols
  | GetPublicSymbol string
  | GetPublicAllTicks
  | GetPublicTick string
  | GetPublicAllTicksLevel2
  | GetPublicTickLevel2 string
  | GetAccount
  | GetTradeSession
  | GetAllCurrencies
  | GetCurrency string
  | GetAllSymbols
  | GetSymbol string
  | GetAllTicks
  | GetTick string
  | GetAllTicksLevel2
  | GetTickLevel2 string
  | GetAllAssets
  | GetAsset string
  | GetAllPositions
  | GetPosition string
  | GetAllTrades
  | GetTrade string
  | CreateTrade "json option"
  | ModifyTrade "json option"
  | CancelTrade string
  | CloseTrade string "json option"
  | CloseByTrade string string
  | GetTradeHistory "json option"
  | GetTradeHistoryByTradeId string "json option"

fun invoke :: "runtime \<Rightarrow> client \<Rightarrow> call \<Rightarrow> error + transport_call" where
  "invoke rt this GetPublicTradeSession = getPublicTradeSession this"
| "invoke rt this GetPublicAllCurrencies = getPublicAllCurrencies this"
| "invoke rt this (GetPublicCurrency c) = getPublicCurrency this c"
| "invoke rt this GetPublicAllSymbols = getPublicAllSymbols this"
| "invoke rt this (GetPublicSymbol s) = getPublicSymbol this s"
| "invoke rt this GetPublicAllTicks = getPublicAllTicks this"
| "invoke rt this (GetPublicTick s) = getPublicTick this s"
| "invoke rt this GetPublicAllTicksLevel2 = getPublicAllTicksLevel2 this"
| "invoke rt this (GetPublicTickLevel2 s) = getPublicTickLevel2 this s"
| "invoke rt this GetAccount = getAccount rt this"
| "invoke rt this GetTradeSession = getTradeSession rt this"
| "invoke rt this GetAllCurrencies = getAllCurrencies rt this"
| "invoke rt this (GetCurrency c) = getCurrency rt this c"
| "invoke rt this GetAllSymbols = getAllSymbols rt this"
| "invoke rt this (GetSymbol s) = getSymbol rt this s"
| "invoke rt this GetAllTicks = getAllTicks rt this"
| "invoke rt this (GetTick s) = getTick rt this s"
| "invoke rt this GetAllTicksLevel2 = getAllTicksLevel2 rt this"
| "invoke rt this (GetTickLevel2 s) = getTickLevel2 rt this s"
| "invoke rt this GetAllAssets = getAllAssets rt this"
| "invoke rt this (GetAsset c) = getAsset rt this c"
| "invoke rt this GetAllPositions = getAllPositions rt this"
| "invoke rt this (GetPosition s) = getPosition rt this s"
| "invoke rt this GetAllTrades = getAllTrades rt this"
| "invoke rt this (GetTrade t) = getTrade rt this t"
| "invoke rt this (CreateTrade r) = createTrade rt this r"
| "invoke rt this (ModifyTrade r) = modifyTrade rt this r"
| "invoke rt this (CancelTrade t) = cancelTrade rt this t"
| "invoke rt this (CloseTrade t a) = closeTrade rt this t a"
| "invoke rt this (CloseByTrade t b) = closeByTrade rt this t b"
| "invoke rt this (GetTradeHistory r) = getTradeHistory rt this r"
| "invoke rt this (GetTradeHistoryByTradeId t r) = getTradeHistoryByTradeId rt this t r"

text \<open>The operations that go through \<open>_signRequest\<close>.\<close>

fun is_private :: "call \<Rightarrow> bool" where
  "is_private GetPublicTradeSession = False"
| "is_private GetPublicAllCurrencies = False"
| "is_private (GetPublicCurrency c) = False"
| "is_private GetPublicAllSymbols = False"
| "is_private (GetPublicSymbol s) = False"
| "is_private GetPublicAllTicks = False"
| "is_private (GetPublicTick s) = False"
| "is_private GetPublicAllTicksLevel2 = False"
| "is_private (GetPublicTickLevel2 s) = False"
| "is_private c = True"


section \<open>The browser client: the jQuery variant in \<open>src/unnamed/part_000\<close>\<close>

text \<open>
  \<open>signRequest\<close> (lines 49-59) receives a \<open>context\<close> object \<open>{type, url, data}\<close>
  and the request whose header it sets (the credentials are \<open>id'\<close>, \<open>key'\<close> and
  \<open>secret'\<close> here). Its local \<open>signature\<close> concatenates
  \<open>context.type\<close> as it is and \<open>(context.data || "")\<close>, coerced to a string by \<open>+\<close>.
\<close>

record signing_context =
  context_type :: string
  context_url :: string
  context_data :: json

definition signature_text_ajax :: "nat \<Rightarrow> string \<Rightarrow> string \<Rightarrow> signing_context \<Rightarrow> string" where
  "signature_text_ajax timestamp id' key' ctx =
     decimal timestamp @ id' @ key' @ context_type ctx @ context_url ctx @
     (if js_truthy (context_data ctx) then js_toString (context_data ctx) else [])"

definition signRequest ::
  "runtime \<Rightarrow> signing_context \<Rightarrow> (string \<rightharpoonup> string) \<Rightarrow>
     string option \<Rightarrow> string option \<Rightarrow> string option \<Rightarrow> error + (string \<rightharpoonup> string)" where
  "signRequest rt ctx request id' key' secret' =
     (case (id', key', secret') of
        (Some i, Some k, Some s) \<Rightarrow>
          if i = [] \<or> k = [] \<or> s = []
          then Inl (Error ''Missing TickTrader Web API credentials.'')
          else
            (let timestamp = Date_now rt;
                 signature = signature_text_ajax timestamp i k ctx;
                 hash = hmac_sha256 rt s signature;
                 authHeader = ''HMAC '' @ i @ '':'' @ k @ '':'' @ decimal timestamp @ '':''
                                @ base64 rt hash
             in Inr (request(''Authorization'' \<mapsto> authHeader)))
      | _ \<Rightarrow> Inl (Error ''Missing TickTrader Web API credentials.''))"

text \<open>
  \<open>_authAjax(url, type = 'GET', data = null)\<close> (lines 70-80) hands \<open>$.ajax\<close> the
  settings below; \<open>beforeSend\<close> runs \<open>signRequest\<close> on the raw \<open>data\<close> before anything
  is sent, and an error thrown there leaves \<open>$.ajax\<close>. The result is that error, or the
  request as it goes out: the settings and the headers set on it.
\<close>

record ajax_request =
  ajax_url :: string
  ajax_type :: string
  ajax_data :: "string option"
  ajax_contentType :: "string option"
  ajax_headers :: "string \<rightharpoonup> string"

definition authAjax ::
  "runtime \<Rightarrow> client \<Rightarrow> string \<Rightarrow> string option \<Rightarrow> json option \<Rightarrow> error + ajax_request" where
  "authAjax rt this url' type_arg data_arg =
     (let type = (case type_arg of None \<Rightarrow> ''GET'' | Some t \<Rightarrow> t);
          data = (case data_arg of None \<Rightarrow> JNull | Some d \<Rightarrow> d)
      in case signRequest rt \<lparr>context_type = type, context_url = url', context_data = data\<rparr>
                Map.empty (web_api_id this) (web_api_key this) (web_api_secret this) of
           Inl e \<Rightarrow> Inl e
         | Inr request \<Rightarrow>
             Inr \<lparr>ajax_url = url', ajax_type = type,
                  ajax_data = (if js_truthy data then Some (JSON_stringify data) else None),
                  ajax_contentType =
                    (if js_truthy data then Some ''application/json; charset=UTF-8'' else None),
                  ajax_headers = request\<rparr>)"

definition createTrade_ajax :: "runtime \<Rightarrow> client \<Rightarrow> json option \<Rightarrow> error + ajax_request" where
  "createTrade_ajax rt this data' =
     authAjax rt this (web_api_address this @ ''/api/v2/trade'') (Some ''POST'') data'"

definition modifyTrade_ajax :: "runtime \<Rightarrow> client \<Rightarrow> json option \<Rightarrow> error + ajax_request" where
  "modifyTrade_ajax rt this data' =
     authAjax rt this (web_api_address this @ ''/api/v2/trade'') (Some ''PUT'') data'"

definition closeTrade_ajax ::
  "runtime \<Rightarrow> client \<Rightarrow> string \<Rightarrow> json option \<Rightarrow> error + ajax_request" where
  "closeTrade_ajax rt this tradeId amount_arg =
     (let amount = (case amount_arg of None \<Rightarrow> JNull | Some a \<Rightarrow> a);
          url = web_api_address this @ ''/api/v2/trade?type=Close&id='' @ tradeId
                  @ (if js_truthy amount then ''&amount='' @ js_toString amount else [])
      in authAjax rt this url (Some ''DELETE'') None)"

definition getTradeHistory_ajax :: "runtime \<Rightarrow> client \<Rightarrow> json option \<Rightarrow> error + ajax_request" where
  "getTradeHistory_ajax rt this data' =
     authAjax rt this (web_api_address this @ ''/api/v2/tradehistory'') (Some ''POST'') data'"

definition getTradeHistoryByTradeId_ajax ::
  "runtime \<Rightarrow> client \<Rightarrow> string \<Rightarrow> json option \<Rightarrow> error + ajax_request" where
  "getTradeHistoryByTradeId_ajax rt this tradeId data' =
     authAjax rt this (web_api_address this @ ''/api/v2/tradehistory/'' @ tradeId)
       (Some ''POST'') data'"


section \<open>The signer as the specification words it\<close>

text \<open>
  The canonical signing string of the specification: the timestamp in decimal, the id,
  the key, the upper-cased method token, the URL, and the body's JSON text or nothing.
\<close>

definition spec_canonical ::
  "nat \<Rightarrow> string \<Rightarrow> string \<Rightarrow> string \<Rightarrow> string \<Rightarrow> string option \<Rightarrow> string" where
  "spec_canonical timestamp cid ckey meth target body =
     concat [decimal timestamp, cid, ckey, toUpperCase meth, target,
             (case body of None \<Rightarrow> [] | Some text \<Rightarrow> text)]"

text \<open>The header value \<open>HMAC {id}:{key}:{timestamp}:{signature}\<close>.\<close>

definition spec_header ::
  "runtime \<Rightarrow> string \<Rightarrow> string \<Rightarrow> string \<Rightarrow> string \<Rightarrow> string \<Rightarrow> string option \<Rightarrow> string" where
  "spec_header rt cid ckey csecret meth target body =
     ''HMAC '' @ join '':''
        [cid, ckey, decimal (Date_now rt),
         base64 rt (hmac_sha256 rt csecret
                      (spec_canonical (Date_now rt) cid ckey meth target body))]"


text \<open>A credential is incomplete when it is missing (\<open>undefined\<close>) or the empty string.\<close>

definition incomplete :: "string option \<Rightarrow> bool" where
  "incomplete credential = (credential = None \<or> credential = Some [])"

text \<open>The URL of the transport call an operation made, if it made one.\<close>

definition issued_url :: "error + transport_call \<Rightarrow> string option" where
  "issued_url r = (case r of Inl e \<Rightarrow> None | Inr t \<Rightarrow> Some (request_url t))"


section \<open>The signer\<close>

lemma signRequest_axios_valid:
  assumes "i \<noteq> []" "k \<noteq> []" "s \<noteq> []"
  shows "signRequest_axios rt c (Some i) (Some k) (Some s) =
           Inr (c\<lparr>headers := Some ((spread (headers c))
                                    (''Authorization'' \<mapsto> authorization rt i k s c))\<rparr>)"
  using assms by (simp add: signRequest_axios_def)

lemma signRequest_valid:
  assumes "i \<noteq> []" "k \<noteq> []" "s \<noteq> []"
  shows "signRequest rt ctx req (Some i) (Some k) (Some s) =
           Inr (req(''Authorization'' \<mapsto>
                  ''HMAC '' @ i @ '':'' @ k @ '':'' @ decimal (Date_now rt) @ '':'' @
                  base64 rt (hmac_sha256 rt s (signature_text_ajax (Date_now rt) i k ctx))))"
  using assms by (simp add: signRequest_def Let_def)

lemma authorization_is_spec_header:
  "authorization rt i k s c =
     spec_header rt i k s (method c) (url c)
       (if truthy (data c) then map_option JSON_stringify (data c) else None)"
  by (auto simp add: authorization_def spec_header_def spec_canonical_def signature_text_def
        body_text_def truthy_def Let_def split: option.splits)

lemma signature_text_ajax_is_spec_canonical:
  assumes "toUpperCase (context_type ctx) = context_type ctx"
    and "context_data ctx = JNull \<or> (\<exists>text. context_data ctx = JStr text)"
  shows "signature_text_ajax t i k ctx =
           spec_canonical t i k (context_type ctx) (context_url ctx)
             (case context_data ctx of JStr text \<Rightarrow> Some text | _ \<Rightarrow> None)"
  using assms
  by (auto simp add: signature_text_ajax_def spec_canonical_def)

text \<open>
  Claim C1, as stated, has every body that is present contribute its JSON text. Line 22
  tests \<open>config.data\<close> for truthiness: the body \<open>false\<close> (like \<open>0\<close>, \<open>""\<close> and
  \<open>null\<close>) is signed as no body at all, not as the text \<open>false\<close>.
\<close>

theorem falsy_body_signed_as_absent:
  "signRequest_axios \<lparr>Date_now = 1700, hmac_sha256 = (@), base64 = rev\<rparr>
     \<lparr>method = ''POST'', url = ''http://x/api/v2/trade'', data = Some (JBool False),
      headers = None\<rparr> (Some ''A'') (Some ''B'') (Some ''C'')
   = Inr \<lparr>method = ''POST'', url = ''http://x/api/v2/trade'', data = Some (JBool False),
          headers = Some [''Authorization'' \<mapsto>
                            ''HMAC A:B:1700:'' @ rev (''C'' @ ''1700ABPOSThttp://x/api/v2/trade'')]\<rparr>
   \<and> spec_header \<lparr>Date_now = 1700, hmac_sha256 = (@), base64 = rev\<rparr> ''A'' ''B'' ''C''
       ''POST'' ''http://x/api/v2/trade'' (Some (JSON_stringify (JBool False)))
     = ''HMAC A:B:1700:'' @ rev (''C'' @ ''1700ABPOSThttp://x/api/v2/tradefalse'')
   \<and> ''HMAC A:B:1700:'' @ rev (''C'' @ ''1700ABPOSThttp://x/api/v2/trade'')
     \<noteq> ''HMAC A:B:1700:'' @ rev (''C'' @ ''1700ABPOSThttp://x/api/v2/tradefalse'')
   \<and> signature_text 1700 ''A'' ''B''
       \<lparr>method = ''POST'', url = ''http://x/api/v2/trade'', data = Some (JBool False),
        headers = None\<rparr>
     = ''1700ABPOSThttp://x/api/v2/trade''"
  by (simp add: signRequest_axios_def authorization_def signature_text_def body_text_def
        spread_def spec_header_def spec_canonical_def decimal.simps digit_char_def
        toUpperCase_def toUpperCase_char_def)

text \<open>
  Claim C1, amended. With a non-empty id, key and secret the signer sets the header
  \<open>HMAC {id}:{key}:{timestamp}:{signature}\<close>, the signature being the Base64 text of the
  HMAC-SHA256, keyed by the secret, of the canonical string: decimal timestamp, id, key,
  upper-cased method token, URL and body text. For \<open>_signRequest\<close> the body text is the
  JSON text of a truthy body and empty for an absent or falsy one, whatever the config.
  \<open>signRequest\<close> of the browser client takes the method token and the body from its
  context as they are: given an upper-case token and the serialized body text (or
  \<open>null\<close>) it sets the same header.
\<close>

theorem sign_builds_header_over_signed_text:
  assumes "cid \<noteq> []" and "ckey \<noteq> []" and "csecret \<noteq> []"
  shows "(\<exists>c'. signRequest_axios rt c (Some cid) (Some ckey) (Some csecret) = Inr c'
            \<and> spread (headers c') ''Authorization'' =
                Some (spec_header rt cid ckey csecret (method c) (url c)
                        (if truthy (data c) then map_option JSON_stringify (data c)
                         else None)))
       \<and> (toUpperCase (context_type ctx) = context_type ctx
            \<and> (context_data ctx = JNull \<or> (\<exists>text. context_data ctx = JStr text)) \<longrightarrow>
          signRequest rt ctx req (Some cid) (Some ckey) (Some csecret) =
            Inr (req(''Authorization'' \<mapsto>
                   spec_header rt cid ckey csecret (context_type ctx) (context_url ctx)
                     (case context_data ctx of JStr text \<Rightarrow> Some text | _ \<Rightarrow> None))))"
proof (intro conjI impI)
  show "\<exists>c'. signRequest_axios rt c (Some cid) (Some ckey) (Some csecret) = Inr c'
            \<and> spread (headers c') ''Authorization'' =
                Some (spec_header rt cid ckey csecret (method c) (url c)
                        (if truthy (data c) then map_option JSON_stringify (data c)
                         else None))"
    using assms
    by (simp add: signRequest_axios_valid authorization_is_spec_header spread_def)
next
  assume a: "toUpperCase (context_type ctx) = context_type ctx
            \<and> (context_data ctx = JNull \<or> (\<exists>text. context_data ctx = JStr text))"
  then have "signature_text_ajax (Date_now rt) cid ckey ctx =
           spec_canonical (Date_now rt) cid ckey (context_type ctx) (context_url ctx)
             (case context_data ctx of JStr text \<Rightarrow> Some text | _ \<Rightarrow> None)"
    using signature_text_ajax_is_spec_canonical by blast
  then show "signRequest rt ctx req (Some cid) (Some ckey) (Some csecret) =
            Inr (req(''Authorization'' \<mapsto>
                   spec_header rt cid ckey csecret (context_type ctx) (context_url ctx)
                     (case context_data ctx of JStr text \<Rightarrow> Some text | _ \<Rightarrow> None)))"
    using assms by (simp add: signRequest_valid spec_header_def)
qed

theorem sign_builds_header_over_signed_text_witness:
  \<open>''A'' \<noteq> [] \<and> ''B'' \<noteq> [] \<and> ''C'' \<noteq> []
   \<and> (\<exists>c'. signRequest_axios \<lparr>Date_now = 1700, hmac_sha256 = (@), base64 = rev\<rparr>
               \<lparr>method = ''post'', url = ''http://x/api/v2/trade'',
                data = Some (JObj [(''type'', JStr ''Market''), (''amount'', JNum 1000)]),
                headers = None\<rparr> (Some ''A'') (Some ''B'') (Some ''C'') = Inr c'
           \<and> spread (headers c') ''Authorization'' =
               Some (''HMAC A:B:1700:'' @
                     rev (''C'' @ ''1700ABPOSThttp://x/api/v2/trade{"type":"Market","amount":1000}'')))
   \<and> toUpperCase ''POST'' = ''POST''
   \<and> signRequest \<lparr>Date_now = 1700, hmac_sha256 = (@), base64 = rev\<rparr>
         \<lparr>context_type = ''POST'', context_url = ''http://x/api/v2/trade'',
          context_data = JStr ''{"type":"Market"}''\<rparr> Map.empty
         (Some ''A'') (Some ''B'') (Some ''C'')
       = Inr [''Authorization'' \<mapsto>
                ''HMAC A:B:1700:'' @
                rev (''C'' @ ''1700ABPOSThttp://x/api/v2/trade{"type":"Market"}'')]\<close>
  using sign_builds_header_over_signed_text [of "''A''" "''B''" "''C''"
          "\<lparr>Date_now = 1700, hmac_sha256 = (@), base64 = rev\<rparr>"
          "\<lparr>method = ''post'', url = ''http://x/api/v2/trade'',
                data = Some (JObj [(''type'', JStr ''Market''), (''amount'', JNum 1000)]),
                headers = None\<rparr>"
          "\<lparr>context_type = ''POST'', context_url = ''http://x/api/v2/trade'',
          context_data = JStr (''{'' @ [CHR 0x22] @ ''type'' @ [CHR 0x22] @ '':''
             @ [CHR 0x22] @ ''Market'' @ [CHR 0x22] @ ''}'')\<rparr>" Map.empty]
  by (simp add: truthy_def spec_header_def spec_canonical_def decimal.simps digit_char_def
        toUpperCase_def toUpperCase_char_def QuoteJSONString_def quote_char_def
        number_toString_def)


section \<open>Credential checks\<close>

lemma signRequest_axios_error_iff:
  "(\<exists>e. signRequest_axios rt c wid wkey wsecret = Inl e) \<longleftrightarrow>
     incomplete wid \<or> incomplete wkey \<or> incomplete wsecret"
  by (auto simp add: signRequest_axios_def incomplete_def split: option.splits if_splits)

lemma signRequest_axios_error_cases:
  "signRequest_axios rt c wid wkey wsecret = Inl e \<Longrightarrow>
     e \<in> {Error ''TickTrader Web API Id should be valid!'',
          Error ''TickTrader Web API Key should be valid!'',
          Error ''TickTrader Web API Secret should be valid!''}"
  by (auto simp add: signRequest_axios_def split: option.splits if_splits)

lemma signed_error_iff:
  "(\<exists>e. signed rt this c = Inl e) \<longleftrightarrow>
     incomplete (web_api_id this) \<or> incomplete (web_api_key this) \<or> incomplete (web_api_secret this)"
  using signRequest_axios_error_iff [of rt c "web_api_id this" "web_api_key this" "web_api_secret this"]
  by (auto simp add: signed_def axios_def split: sum.splits)

lemma signed_cases:
  "(\<exists>e. signed rt this c = Inl e) \<or> (\<exists>c'. signed rt this c = Inr (Axios c'))"
  by (simp add: signed_def axios_def split: sum.splits)

lemma invoke_private_signed:
  "is_private call \<Longrightarrow> \<exists>c. invoke rt this call = signed rt this c"
  by (cases call)
     (auto simp add: getAccount_def getTradeSession_def getAllCurrencies_def getCurrency_def
        getAllSymbols_def getSymbol_def getAllTicks_def getTick_def getAllTicksLevel2_def
        getTickLevel2_def getAllAssets_def getAsset_def getAllPositions_def getPosition_def
        getAllTrades_def getTrade_def createTrade_def modifyTrade_def cancelTrade_def
        closeTrade_def closeByTrade_def getTradeHistory_def getTradeHistoryByTradeId_def Let_def)

lemma invoke_private_outcome:
  assumes "is_private call"
  shows "if incomplete (web_api_id this) \<or> incomplete (web_api_key this)
            \<or> incomplete (web_api_secret this)
         then (\<exists>e. invoke rt this call = Inl e) \<and> transport_calls (invoke rt this call) = []
         else (\<exists>cfg. invoke rt this call = Inr (Axios cfg))"
proof -
  obtain c where c: "invoke rt this call = signed rt this c"
    using invoke_private_signed [OF assms] by blast
  show ?thesis
  proof (cases "incomplete (web_api_id this) \<or> incomplete (web_api_key this)
                  \<or> incomplete (web_api_secret this)")
    case True
    then obtain e where "signed rt this c = Inl e"
      using signed_error_iff [of rt this c] by blast
    with True c show ?thesis by (simp add: transport_calls_def)
  next
    case False
    then have "\<not> (\<exists>e. signed rt this c = Inl e)"
      using signed_error_iff [of rt this c] by blast
    then obtain c' where "signed rt this c = Inr (Axios c')"
      using signed_cases [of rt this c] by blast
    with False c show ?thesis by simp
  qed
qed

lemma signRequest_error_iff:
  "(\<exists>e. signRequest rt ctx req wid wkey wsecret = Inl e) \<longleftrightarrow>
     incomplete wid \<or> incomplete wkey \<or> incomplete wsecret"
  by (auto simp add: signRequest_def incomplete_def Let_def split: option.splits if_splits)

lemma signRequest_error_cases:
  "signRequest rt ctx req wid wkey wsecret = Inl e \<Longrightarrow>
     e = Error ''Missing TickTrader Web API credentials.''"
  by (auto simp add: signRequest_def Let_def split: option.splits if_splits)

lemma authAjax_error_iff:
  "(\<exists>e. authAjax rt this u ty d = Inl e) \<longleftrightarrow>
     incomplete (web_api_id this) \<or> incomplete (web_api_key this) \<or> incomplete (web_api_secret this)"
proof -
  define ctx where "ctx = \<lparr>context_type = (case ty of None \<Rightarrow> ''GET'' | Some t \<Rightarrow> t),
    context_url = u, context_data = (case d of None \<Rightarrow> JNull | Some x \<Rightarrow> x)\<rparr>"
  have "(\<exists>e. authAjax rt this u ty d = Inl e) \<longleftrightarrow>
        (\<exists>e. signRequest rt ctx Map.empty (web_api_id this) (web_api_key this)
               (web_api_secret this) = Inl e)"
    by (simp add: authAjax_def Let_def ctx_def split: sum.splits)
  then show ?thesis
    by (simp add: signRequest_error_iff)
qed

text \<open>
  Claim C2. Signing fails exactly when one of the three credentials is missing or empty,
  and then with one of the credential errors of the code. A private operation whose client
  has an incomplete credential throws and makes no transport call; with complete
  credentials it makes its one \<open>axios\<close> call. The same holds for \<open>signRequest\<close> and
  \<open>_authAjax\<close> of the browser client, where the error leaves \<open>$.ajax\<close> from
  \<open>beforeSend\<close>.
\<close>

theorem incomplete_credentials_raise_before_transport:
  "((\<exists>e. signRequest_axios rt c wid wkey wsecret = Inl e) \<longleftrightarrow>
       incomplete wid \<or> incomplete wkey \<or> incomplete wsecret)
   \<and> (\<forall>e. signRequest_axios rt c wid wkey wsecret = Inl e \<longrightarrow>
         e \<in> {Error ''TickTrader Web API Id should be valid!'',
              Error ''TickTrader Web API Key should be valid!'',
              Error ''TickTrader Web API Secret should be valid!''})
   \<and> (is_private call \<longrightarrow>
        (if incomplete (web_api_id this) \<or> incomplete (web_api_key this)
              \<or> incomplete (web_api_secret this)
         then (\<exists>e. invoke rt this call = Inl e) \<and> transport_calls (invoke rt this call) = []
         else (\<exists>cfg. invoke rt this call = Inr (Axios cfg))))
   \<and> ((\<exists>e. signRequest rt ctx req wid wkey wsecret = Inl e) \<longleftrightarrow>
       incomplete wid \<or> incomplete wkey \<or> incomplete wsecret)
   \<and> (\<forall>e. signRequest rt ctx req wid wkey wsecret = Inl e \<longrightarrow>
         e = Error ''Missing TickTrader Web API credentials.'')
   \<and> ((\<exists>e. authAjax rt this u ty d = Inl e) \<longleftrightarrow>
       incomplete (web_api_id this) \<or> incomplete (web_api_key this)
         \<or> incomplete (web_api_secret this))"
  using signRequest_axios_error_iff [of rt c wid wkey wsecret]
    signRequest_axios_error_cases [of rt c wid wkey wsecret]
    invoke_private_outcome [of call this rt]
    signRequest_error_iff [of rt ctx req wid wkey wsecret]
    signRequest_error_cases [of rt ctx req wid wkey wsecret]
    authAjax_error_iff [of rt this u ty d]
  by blast


theorem incomplete_credentials_raise_before_transport_witness:
  "is_private (CreateTrade (Some (JObj [])))
   \<and> incomplete (Some [])
   \<and> (\<exists>e. signRequest_axios \<lparr>Date_now = 1700, hmac_sha256 = (@), base64 = rev\<rparr>
              \<lparr>method = ''GET'', url = ''http://x/api/v2/account'', data = None, headers = None\<rparr>
              (Some ''A'') (Some []) (Some ''C'') = Inl e)
   \<and> transport_calls
         (invoke \<lparr>Date_now = 1700, hmac_sha256 = (@), base64 = rev\<rparr>
            \<lparr>web_api_address = ''http://x'', web_api_id = Some ''A'', web_api_key = Some ''B'',
             web_api_secret = None\<rparr> (CreateTrade (Some (JObj [])))) = []"
  using incomplete_credentials_raise_before_transport
    [of "\<lparr>Date_now = 1700, hmac_sha256 = (@), base64 = rev\<rparr>"
        "\<lparr>method = ''GET'', url = ''http://x/api/v2/account'', data = None, headers = None\<rparr>"
        "Some ''A''" "Some []" "Some ''C''" "CreateTrade (Some (JObj []))"
        "\<lparr>web_api_address = ''http://x'', web_api_id = Some ''A'', web_api_key = Some ''B'',
             web_api_secret = None\<rparr>"]
  by (simp add: incomplete_def)


section \<open>The signed text\<close>

text \<open>
  Claim C4, as stated, asks that method \<open>""\<close> with URL \<open>GETx\<close> and method \<open>GET\<close> with
  URL \<open>x\<close> do not share a signing string. They do: the fields are concatenated without
  separators.
\<close>

theorem adversarial_pair_shares_signing_string:
  "signature_text 0 ''A'' ''B'' \<lparr>method = [], url = ''GETx'', data = None, headers = None\<rparr>
     = signature_text 0 ''A'' ''B'' \<lparr>method = ''GET'', url = ''x'', data = None, headers = None\<rparr>"
  by (simp add: signature_text_def toUpperCase_def toUpperCase_char_def body_text_def)

text \<open>
  Claim C4, amended. With the timestamp and the credentials fixed, two configs that differ
  in exactly one of the upper-cased method token, the URL and the body text have different
  signing strings.
\<close>

theorem one_changed_component_changes_signing_string:
  assumes "(toUpperCase (method c1) \<noteq> toUpperCase (method c2) \<and> url c1 = url c2
              \<and> body_text (data c1) = body_text (data c2))
         \<or> (toUpperCase (method c1) = toUpperCase (method c2) \<and> url c1 \<noteq> url c2
              \<and> body_text (data c1) = body_text (data c2))
         \<or> (toUpperCase (method c1) = toUpperCase (method c2) \<and> url c1 = url c2
              \<and> body_text (data c1) \<noteq> body_text (data c2))"
  shows "signature_text t i k c1 \<noteq> signature_text t i k c2"
  using assms by (auto simp add: signature_text_def)

theorem one_changed_component_changes_signing_string_witness:
  "toUpperCase ''GET'' \<noteq> toUpperCase ''PUT''
   \<and> signature_text 1700 ''A'' ''B'' \<lparr>method = ''GET'', url = ''http://x/api/v2/trade'', data = None, headers = None\<rparr>
     \<noteq> signature_text 1700 ''A'' ''B'' \<lparr>method = ''PUT'', url = ''http://x/api/v2/trade'', data = None, headers = None\<rparr>"
  using one_changed_component_changes_signing_string
    [of "\<lparr>method = ''GET'', url = ''http://x/api/v2/trade'', data = None, headers = None\<rparr>"
        "\<lparr>method = ''PUT'', url = ''http://x/api/v2/trade'', data = None, headers = None\<rparr>"
        1700 "''A''" "''B''"]
  by (simp add: toUpperCase_def toUpperCase_char_def)

text \<open>
  Claim C5. With the timestamp, credentials, method and URL fixed, a config without a body
  and one whose body is the empty object have different signing strings: absence
  contributes the empty string, the empty object its JSON text \<open>{}\<close>.
\<close>

theorem absent_body_signs_unlike_empty_object:
  "signature_text t i k (c\<lparr>data := None\<rparr>) \<noteq> signature_text t i k (c\<lparr>data := Some (JObj [])\<rparr>)
   \<and> body_text None = []
   \<and> body_text (Some (JObj [])) = ''{}''"
  by (simp add: signature_text_def body_text_def)

text \<open>
  Claim C8. Two runs of the signer that read the same timestamp and use the same HMAC and
  Base64 routines, on configs with the same method, URL and body and with the same valid
  credentials, both succeed and set the same \<open>Authorization\<close> value; whatever else the
  configs carry does not matter.
\<close>

theorem sign_deterministic:
  assumes "cid \<noteq> []" and "ckey \<noteq> []" and "csecret \<noteq> []"
    and "Date_now rt1 = Date_now rt2"
    and "hmac_sha256 rt1 = hmac_sha256 rt2" and "base64 rt1 = base64 rt2"
    and "method c1 = method c2" and "url c1 = url c2" and "data c1 = data c2"
  shows "\<exists>c1' c2' h.
           signRequest_axios rt1 c1 (Some cid) (Some ckey) (Some csecret) = Inr c1'
         \<and> signRequest_axios rt2 c2 (Some cid) (Some ckey) (Some csecret) = Inr c2'
         \<and> spread (headers c1') ''Authorization'' = Some h
         \<and> spread (headers c2') ''Authorization'' = Some h"
  using assms
  by (simp add: signRequest_axios_valid spread_def authorization_def signature_text_def)

theorem sign_deterministic_witness:
  "''A'' \<noteq> [] \<and> ''B'' \<noteq> [] \<and> ''C'' \<noteq> []
   \<and> (\<exists>c1' c2' h.
        signRequest_axios \<lparr>Date_now = 1700, hmac_sha256 = (@), base64 = rev\<rparr>
          \<lparr>method = ''GET'', url = ''http://x/api/v2/account'', data = None, headers = None\<rparr>
          (Some ''A'') (Some ''B'') (Some ''C'') = Inr c1'
      \<and> signRequest_axios \<lparr>Date_now = 1700, hmac_sha256 = (@), base64 = rev\<rparr>
          \<lparr>method = ''GET'', url = ''http://x/api/v2/account'', data = None,
           headers = Some [''Accept'' \<mapsto> ''text/plain'']\<rparr>
          (Some ''A'') (Some ''B'') (Some ''C'') = Inr c2'
      \<and> spread (headers c1') ''Authorization'' = Some h
      \<and> spread (headers c2') ''Authorization'' = Some h)"
  using sign_deterministic
    [of "''A''" "''B''" "''C''" "\<lparr>Date_now = 1700, hmac_sha256 = (@), base64 = rev\<rparr>"
        "\<lparr>Date_now = 1700, hmac_sha256 = (@), base64 = rev\<rparr>"
        "\<lparr>method = ''GET'', url = ''http://x/api/v2/account'', data = None, headers = None\<rparr>"
        "\<lparr>method = ''GET'', url = ''http://x/api/v2/account'', data = None,
           headers = Some [''Accept'' \<mapsto> ''text/plain'']\<rparr>"]
  by simp


section \<open>What a private operation hands to the transport\<close>

lemma complete_credential:
  "\<not> incomplete w \<Longrightarrow> \<exists>s. w = Some s \<and> s \<noteq> []"
  by (cases w) (simp_all add: incomplete_def)

lemma signed_valid:
  assumes "\<not> incomplete (web_api_id this)" and "\<not> incomplete (web_api_key this)"
    and "\<not> incomplete (web_api_secret this)"
  shows "\<exists>h. signed rt this c =
           Inr (Axios (c\<lparr>headers := Some ((spread (headers c))(''Authorization'' \<mapsto> h))\<rparr>))"
proof -
  obtain i where i: "web_api_id this = Some i" "i \<noteq> []"
    using complete_credential [OF assms(1)] by blast
  obtain k where k: "web_api_key this = Some k" "k \<noteq> []"
    using complete_credential [OF assms(2)] by blast
  obtain s where s: "web_api_secret this = Some s" "s \<noteq> []"
    using complete_credential [OF assms(3)] by blast
  have "signed rt this c =
          Inr (Axios (c\<lparr>headers := Some ((spread (headers c))
                                (''Authorization'' \<mapsto> authorization rt i k s c))\<rparr>))"
    using i k s by (simp add: signed_def axios_def signRequest_axios_valid)
  then show ?thesis ..
qed

lemma signRequest_axios_frame:
  assumes "signRequest_axios rt c wid wkey wsecret = Inr c'"
  shows "\<exists>h. c' = c\<lparr>headers := Some ((spread (headers c))(''Authorization'' \<mapsto> h))\<rparr>"
  using assms
  by (auto simp add: signRequest_axios_def split: option.splits if_splits)

lemma signed_frame:
  assumes "signed rt this c = Inr t"
  shows "\<exists>h. t = Axios (c\<lparr>headers := Some ((spread (headers c))(''Authorization'' \<mapsto> h))\<rparr>)"
proof -
  from assms obtain c' where
    c': "signRequest_axios rt c (web_api_id this) (web_api_key this) (web_api_secret this) = Inr c'"
    and t: "t = Axios c'"
    by (auto simp add: signed_def axios_def split: sum.splits)
  from signRequest_axios_frame [OF c'] t show ?thesis by blast
qed

lemma signed_url:
  "signed rt this c = Inr t \<Longrightarrow> request_url t = url c"
  using signed_frame [of rt this c t] by (auto simp add: request_url_def)

lemma signed_valid_fields:
  assumes "\<not> incomplete (web_api_id this)" and "\<not> incomplete (web_api_key this)"
    and "\<not> incomplete (web_api_secret this)"
  shows "\<exists>cfg. signed rt this c = Inr (Axios cfg)
           \<and> method cfg = method c \<and> data cfg = data c \<and> url cfg = url c"
  using signed_valid [OF assms, of rt c] by auto

text \<open>
  Claim C7. On a client with complete credentials, \<open>closeTrade(tradeId)\<close> without an
  amount issues a \<open>DELETE\<close> without body to \<open>{base}/api/v2/trade?type=Close&id={tradeId}\<close>,
  with no \<open>amount\<close> parameter, and \<open>closeTrade("T123", 5)\<close> issues it to the same URL with
  \<open>&amount=5\<close> appended.
\<close>

theorem closeTrade_amount_query:
  assumes "\<not> incomplete (web_api_id this)" and "\<not> incomplete (web_api_key this)"
    and "\<not> incomplete (web_api_secret this)"
  shows "(\<exists>cfg. closeTrade rt this tradeId None = Inr (Axios cfg)
            \<and> method cfg = ''DELETE'' \<and> data cfg = None
            \<and> url cfg = web_api_address this @ ''/api/v2/trade?type=Close&id='' @ tradeId)
       \<and> (\<exists>cfg. closeTrade rt this ''T123'' (Some (JNum 5)) = Inr (Axios cfg)
            \<and> method cfg = ''DELETE'' \<and> data cfg = None
            \<and> url cfg = web_api_address this @ ''/api/v2/trade?type=Close&id=T123&amount=5'')"
proof
  show "\<exists>cfg. closeTrade rt this tradeId None = Inr (Axios cfg)
            \<and> method cfg = ''DELETE'' \<and> data cfg = None
            \<and> url cfg = web_api_address this @ ''/api/v2/trade?type=Close&id='' @ tradeId"
    using signed_valid_fields [OF assms, of rt
        "\<lparr>method = ''DELETE'',
          url = web_api_address this @ ''/api/v2/trade?type=Close&id='' @ tradeId,
          data = None, headers = None\<rparr>"]
    by (simp add: closeTrade_def)
next
  have five: "number_toString 5 = ''5''"
    by (simp add: number_toString_def decimal.simps digit_char_def)
  show "\<exists>cfg. closeTrade rt this ''T123'' (Some (JNum 5)) = Inr (Axios cfg)
            \<and> method cfg = ''DELETE'' \<and> data cfg = None
            \<and> url cfg = web_api_address this @ ''/api/v2/trade?type=Close&id=T123&amount=5''"
    using signed_valid_fields [OF assms, of rt
        "\<lparr>method = ''DELETE'',
          url = web_api_address this @ ''/api/v2/trade?type=Close&id=T123&amount=5'',
          data = None, headers = None\<rparr>"]
    by (simp add: closeTrade_def five)
qed

theorem closeTrade_amount_query_witness:
  "\<not> incomplete (Some ''A'') \<and> \<not> incomplete (Some ''B'') \<and> \<not> incomplete (Some ''C'')
   \<and> (\<exists>cfg. closeTrade \<lparr>Date_now = 1700, hmac_sha256 = (@), base64 = rev\<rparr>
              \<lparr>web_api_address = ''http://x'', web_api_id = Some ''A'', web_api_key = Some ''B'',
               web_api_secret = Some ''C''\<rparr> ''T123'' None = Inr (Axios cfg)
            \<and> method cfg = ''DELETE'' \<and> data cfg = None
            \<and> url cfg = ''http://x/api/v2/trade?type=Close&id=T123'')
   \<and> (\<exists>cfg. closeTrade \<lparr>Date_now = 1700, hmac_sha256 = (@), base64 = rev\<rparr>
              \<lparr>web_api_address = ''http://x'', web_api_id = Some ''A'', web_api_key = Some ''B'',
               web_api_secret = Some ''C''\<rparr> ''T123'' (Some (JNum 5)) = Inr (Axios cfg)
            \<and> method cfg = ''DELETE'' \<and> data cfg = None
            \<and> url cfg = ''http://x/api/v2/trade?type=Close&id=T123&amount=5'')"
  using closeTrade_amount_query
    [of "\<lparr>web_api_address = ''http://x'', web_api_id = Some ''A'', web_api_key = Some ''B'',
               web_api_secret = Some ''C''\<rparr>"
        "\<lparr>Date_now = 1700, hmac_sha256 = (@), base64 = rev\<rparr>" "''T123''"]
  by (simp add: incomplete_def)

text \<open>
  Claim C9. A falsy amount (zero, \<open>null\<close>, \<open>false\<close>, the empty string) is treated as no
  amount. \<open>closeTrade\<close> then does exactly what it does when the argument is omitted; any
  request it makes goes to \<open>{base}/api/v2/trade?type=Close&id={tradeId}\<close>, without an
  \<open>amount\<close> parameter; and on a client with complete credentials it makes that \<open>DELETE\<close>
  request.
\<close>

theorem closeTrade_falsy_amount_omitted:
  assumes "\<not> truthy amount"
  shows "closeTrade rt this tradeId amount = closeTrade rt this tradeId None
       \<and> (\<forall>t. closeTrade rt this tradeId amount = Inr t \<longrightarrow>
             request_url t = web_api_address this @ ''/api/v2/trade?type=Close&id='' @ tradeId)
       \<and> (\<not> incomplete (web_api_id this) \<and> \<not> incomplete (web_api_key this)
            \<and> \<not> incomplete (web_api_secret this) \<longrightarrow>
          (\<exists>cfg. closeTrade rt this tradeId amount = Inr (Axios cfg)
             \<and> method cfg = ''DELETE'' \<and> data cfg = None
             \<and> url cfg = web_api_address this @ ''/api/v2/trade?type=Close&id='' @ tradeId))"
proof -
  have unfold: "closeTrade rt this tradeId amount =
      signed rt this \<lparr>method = ''DELETE'',
        url = web_api_address this @ ''/api/v2/trade?type=Close&id='' @ tradeId,
        data = None, headers = None\<rparr>"
    using assms by (simp add: closeTrade_def truthy_def split: option.splits)
  have none: "closeTrade rt this tradeId None =
      signed rt this \<lparr>method = ''DELETE'',
        url = web_api_address this @ ''/api/v2/trade?type=Close&id='' @ tradeId,
        data = None, headers = None\<rparr>"
    by (simp add: closeTrade_def)
  have eq: "closeTrade rt this tradeId amount = closeTrade rt this tradeId None"
    by (simp only: unfold none)
  have urls: "\<forall>t. closeTrade rt this tradeId amount = Inr t \<longrightarrow>
             request_url t = web_api_address this @ ''/api/v2/trade?type=Close&id='' @ tradeId"
    unfolding unfold using signed_url [of rt this] by fastforce
  have issued: "\<not> incomplete (web_api_id this) \<and> \<not> incomplete (web_api_key this)
            \<and> \<not> incomplete (web_api_secret this) \<longrightarrow>
          (\<exists>cfg. closeTrade rt this tradeId amount = Inr (Axios cfg)
             \<and> method cfg = ''DELETE'' \<and> data cfg = None
             \<and> url cfg = web_api_address this @ ''/api/v2/trade?type=Close&id='' @ tradeId)"
  proof
    assume c: "\<not> incomplete (web_api_id this) \<and> \<not> incomplete (web_api_key this)
            \<and> \<not> incomplete (web_api_secret this)"
    then have c1: "\<not> incomplete (web_api_id this)" and c2: "\<not> incomplete (web_api_key this)"
      and c3: "\<not> incomplete (web_api_secret this)" by simp_all
    show "\<exists>cfg. closeTrade rt this tradeId amount = Inr (Axios cfg)
             \<and> method cfg = ''DELETE'' \<and> data cfg = None
             \<and> url cfg = web_api_address this @ ''/api/v2/trade?type=Close&id='' @ tradeId"
      unfolding unfold
      using signed_valid_fields [OF c1 c2 c3, of rt
        "\<lparr>method = ''DELETE'',
          url = web_api_address this @ ''/api/v2/trade?type=Close&id='' @ tradeId,
          data = None, headers = None\<rparr>"]
      by simp
  qed
  from eq urls issued show ?thesis by blast
qed

theorem closeTrade_falsy_amount_omitted_witness:
  "\<not> truthy (Some (JNum 0))
   \<and> \<not> incomplete (Some ''A'') \<and> \<not> incomplete (Some ''B'') \<and> \<not> incomplete (Some ''C'')
   \<and> closeTrade \<lparr>Date_now = 1700, hmac_sha256 = (@), base64 = rev\<rparr>
       \<lparr>web_api_address = ''http://x'', web_api_id = Some ''A'', web_api_key = Some ''B'',
        web_api_secret = Some ''C''\<rparr> ''T123'' (Some (JNum 0))
     = closeTrade \<lparr>Date_now = 1700, hmac_sha256 = (@), base64 = rev\<rparr>
         \<lparr>web_api_address = ''http://x'', web_api_id = Some ''A'', web_api_key = Some ''B'',
          web_api_secret = Some ''C''\<rparr> ''T123'' None
   \<and> (\<exists>cfg. closeTrade \<lparr>Date_now = 1700, hmac_sha256 = (@), base64 = rev\<rparr>
         \<lparr>web_api_address = ''http://x'', web_api_id = Some ''A'', web_api_key = Some ''B'',
          web_api_secret = Some ''C''\<rparr> ''T123'' (Some (JNum 0)) = Inr (Axios cfg)
        \<and> method cfg = ''DELETE'' \<and> data cfg = None
        \<and> url cfg = ''http://x/api/v2/trade?type=Close&id=T123'')"
  using closeTrade_falsy_amount_omitted
    [of "Some (JNum 0)" "\<lparr>Date_now = 1700, hmac_sha256 = (@), base64 = rev\<rparr>"
        "\<lparr>web_api_address = ''http://x'', web_api_id = Some ''A'', web_api_key = Some ''B'',
          web_api_secret = Some ''C''\<rparr>" "''T123''"]
  by (simp (no_asm_use) add: truthy_def incomplete_def; blast)


section \<open>What signing leaves alone\<close>

lemma signRequest_axios_fields:
  assumes "signRequest_axios rt c wid wkey wsecret = Inr c'"
  shows "method c' = method c \<and> url c' = url c \<and> data c' = data c
       \<and> (\<forall>name. name \<noteq> ''Authorization'' \<longrightarrow>
             spread (headers c') name = spread (headers c) name)
       \<and> (\<exists>v. spread (headers c') ''Authorization'' = Some v)"
proof -
  obtain h where "c' = c\<lparr>headers := Some ((spread (headers c))(''Authorization'' \<mapsto> h))\<rparr>"
    using signRequest_axios_frame [OF assms] by blast
  then show ?thesis by (simp add: spread_def)
qed

lemma body_operation_headers:
  assumes "signed rt this \<lparr>method = m, url = u, data = r,
             headers = Some [''Content-Type'' \<mapsto> ''application/json'']\<rparr> = Inr (Axios cfg)"
  shows "spread (headers cfg) ''Content-Type'' = Some ''application/json''
       \<and> (\<exists>v. spread (headers cfg) ''Authorization'' = Some v)
       \<and> dom (spread (headers cfg)) = {''Content-Type'', ''Authorization''}
       \<and> data cfg = r"
proof -
  obtain h where "Axios cfg = Axios (\<lparr>method = m, url = u, data = r,
             headers = Some [''Content-Type'' \<mapsto> ''application/json'']\<rparr>
          \<lparr>headers := Some ((spread (Some [''Content-Type'' \<mapsto> ''application/json'']))
                               (''Authorization'' \<mapsto> h))\<rparr>)"
    using signed_frame [OF assms] by auto
  then have "cfg = \<lparr>method = m, url = u, data = r,
             headers = Some ([''Content-Type'' \<mapsto> ''application/json'']
                               (''Authorization'' \<mapsto> h))\<rparr>"
    by (simp add: spread_def)
  then show ?thesis by (auto simp add: spread_def)
qed

text \<open>
  Claim C10. Signing changes only the \<open>Authorization\<close> header: the config that
  \<open>_signRequest\<close> returns has the method, URL and data of its input, every header under
  another name as it was, and an \<open>Authorization\<close> entry. The request that
  \<open>createTrade\<close>, \<open>modifyTrade\<close> and the two trade-history operations hand to axios
  therefore carries the caller's body, \<open>Content-Type: application/json\<close> and
  \<open>Authorization\<close>, and no other header.
\<close>

theorem signing_only_sets_authorization:
  "(signRequest_axios rt c wid wkey wsecret = Inr c' \<longrightarrow>
      method c' = method c \<and> url c' = url c \<and> data c' = data c
      \<and> (\<forall>name. name \<noteq> ''Authorization'' \<longrightarrow>
            spread (headers c') name = spread (headers c) name)
      \<and> (\<exists>v. spread (headers c') ''Authorization'' = Some v))
   \<and> (call \<in> {CreateTrade r, ModifyTrade r, GetTradeHistory r, GetTradeHistoryByTradeId t r}
        \<and> invoke rt this call = Inr (Axios cfg) \<longrightarrow>
      spread (headers cfg) ''Content-Type'' = Some ''application/json''
      \<and> (\<exists>v. spread (headers cfg) ''Authorization'' = Some v)
      \<and> dom (spread (headers cfg)) = {''Content-Type'', ''Authorization''}
      \<and> data cfg = r)"
proof (intro conjI impI)
  assume "signRequest_axios rt c wid wkey wsecret = Inr c'"
  from signRequest_axios_fields [OF this]
  show "method c' = method c" "url c' = url c" "data c' = data c"
    "\<forall>name. name \<noteq> ''Authorization'' \<longrightarrow> spread (headers c') name = spread (headers c) name"
    "\<exists>v. spread (headers c') ''Authorization'' = Some v"
    by blast+
next
  assume a: "call \<in> {CreateTrade r, ModifyTrade r, GetTradeHistory r, GetTradeHistoryByTradeId t r}
        \<and> invoke rt this call = Inr (Axios cfg)"
  then consider "call = CreateTrade r" | "call = ModifyTrade r" | "call = GetTradeHistory r"
    | "call = GetTradeHistoryByTradeId t r"
    by blast
  then have "\<exists>m u. invoke rt this call = signed rt this \<lparr>method = m, url = u, data = r,
             headers = Some [''Content-Type'' \<mapsto> ''application/json'']\<rparr>"
  proof cases
    case 1
    show ?thesis unfolding 1 invoke.simps createTrade_def by (rule exI, rule exI, rule refl)
  next
    case 2
    show ?thesis unfolding 2 invoke.simps modifyTrade_def by (rule exI, rule exI, rule refl)
  next
    case 3
    show ?thesis unfolding 3 invoke.simps getTradeHistory_def by (rule exI, rule exI, rule refl)
  next
    case 4
    show ?thesis unfolding 4 invoke.simps getTradeHistoryByTradeId_def
      by (rule exI, rule exI, rule refl)
  qed
  with a obtain m u where "signed rt this \<lparr>method = m, url = u, data = r,
             headers = Some [''Content-Type'' \<mapsto> ''application/json'']\<rparr> = Inr (Axios cfg)"
    by auto
  from body_operation_headers [OF this]
  show "spread (headers cfg) ''Content-Type'' = Some ''application/json''"
    "\<exists>v. spread (headers cfg) ''Authorization'' = Some v"
    "dom (spread (headers cfg)) = {''Content-Type'', ''Authorization''}"
    "data cfg = r"
    by blast+
qed


theorem signing_only_sets_authorization_witness:
  "signRequest_axios \<lparr>Date_now = 1700, hmac_sha256 = (@), base64 = rev\<rparr>
     \<lparr>method = ''POST'', url = ''http://x/api/v2/trade'', data = Some (JObj []),
      headers = Some [''Content-Type'' \<mapsto> ''application/json'']\<rparr>
     (Some ''A'') (Some ''B'') (Some ''C'')
   = Inr \<lparr>method = ''POST'', url = ''http://x/api/v2/trade'', data = Some (JObj []),
          headers = Some [''Content-Type'' \<mapsto> ''application/json'',
                          ''Authorization'' \<mapsto>
                            ''HMAC A:B:1700:'' @ rev (''C'' @ ''1700ABPOSThttp://x/api/v2/trade{}'')]\<rparr>
   \<and> spread (Some [''Content-Type'' \<mapsto> ''application/json'',
                    ''Authorization'' \<mapsto>
                      ''HMAC A:B:1700:'' @ rev (''C'' @ ''1700ABPOSThttp://x/api/v2/trade{}'')])
         ''Content-Type''
       = spread (Some [''Content-Type'' \<mapsto> ''application/json'']) ''Content-Type''
   \<and> invoke \<lparr>Date_now = 1700, hmac_sha256 = (@), base64 = rev\<rparr>
        \<lparr>web_api_address = ''http://x'', web_api_id = Some ''A'', web_api_key = Some ''B'',
         web_api_secret = Some ''C''\<rparr> (CreateTrade (Some (JObj [])))
     = Inr (Axios \<lparr>method = ''POST'', url = ''http://x/api/v2/trade'', data = Some (JObj []),
          headers = Some [''Content-Type'' \<mapsto> ''application/json'',
                          ''Authorization'' \<mapsto>
                            ''HMAC A:B:1700:'' @ rev (''C'' @ ''1700ABPOSThttp://x/api/v2/trade{}'')]\<rparr>)
   \<and> dom (spread (Some [''Content-Type'' \<mapsto> ''application/json'',
                    ''Authorization'' \<mapsto>
                      ''HMAC A:B:1700:'' @ rev (''C'' @ ''1700ABPOSThttp://x/api/v2/trade{}'')]))
       = {''Content-Type'', ''Authorization''}"
proof -
  have run: "signRequest_axios \<lparr>Date_now = 1700, hmac_sha256 = (@), base64 = rev\<rparr>
     \<lparr>method = ''POST'', url = ''http://x/api/v2/trade'', data = Some (JObj []),
      headers = Some [''Content-Type'' \<mapsto> ''application/json'']\<rparr>
     (Some ''A'') (Some ''B'') (Some ''C'')
   = Inr \<lparr>method = ''POST'', url = ''http://x/api/v2/trade'', data = Some (JObj []),
          headers = Some [''Content-Type'' \<mapsto> ''application/json'',
                          ''Authorization'' \<mapsto>
                            ''HMAC A:B:1700:'' @ rev (''C'' @ ''1700ABPOSThttp://x/api/v2/trade{}'')]\<rparr>"
    by (simp add: signRequest_axios_def authorization_def signature_text_def body_text_def
          spread_def decimal.simps digit_char_def toUpperCase_def toUpperCase_char_def)
  have op: "invoke \<lparr>Date_now = 1700, hmac_sha256 = (@), base64 = rev\<rparr>
        \<lparr>web_api_address = ''http://x'', web_api_id = Some ''A'', web_api_key = Some ''B'',
         web_api_secret = Some ''C''\<rparr> (CreateTrade (Some (JObj [])))
     = Inr (Axios \<lparr>method = ''POST'', url = ''http://x/api/v2/trade'', data = Some (JObj []),
          headers = Some [''Content-Type'' \<mapsto> ''application/json'',
                          ''Authorization'' \<mapsto>
                            ''HMAC A:B:1700:'' @ rev (''C'' @ ''1700ABPOSThttp://x/api/v2/trade{}'')]\<rparr>)"
    using run by (simp add: createTrade_def signed_def axios_def)
  show ?thesis
    using run op
      signing_only_sets_authorization
        [of "\<lparr>Date_now = 1700, hmac_sha256 = (@), base64 = rev\<rparr>"
            "\<lparr>method = ''POST'', url = ''http://x/api/v2/trade'', data = Some (JObj []),
              headers = Some [''Content-Type'' \<mapsto> ''application/json'']\<rparr>"
            "Some ''A''" "Some ''B''" "Some ''C''"
            "\<lparr>method = ''POST'', url = ''http://x/api/v2/trade'', data = Some (JObj []),
              headers = Some [''Content-Type'' \<mapsto> ''application/json'',
                          ''Authorization'' \<mapsto>
                            ''HMAC A:B:1700:'' @ rev (''C'' @ ''1700ABPOSThttp://x/api/v2/trade{}'')]\<rparr>"
            "CreateTrade (Some (JObj []))" "Some (JObj [])" "[]"
            "\<lparr>web_api_address = ''http://x'', web_api_id = Some ''A'', web_api_key = Some ''B'',
              web_api_secret = Some ''C''\<rparr>"
            "\<lparr>method = ''POST'', url = ''http://x/api/v2/trade'', data = Some (JObj []),
              headers = Some [''Content-Type'' \<mapsto> ''application/json'',
                          ''Authorization'' \<mapsto>
                            ''HMAC A:B:1700:'' @ rev (''C'' @ ''1700ABPOSThttp://x/api/v2/trade{}'')]\<rparr>"]
    by (auto simp add: spread_def)
qed


section \<open>Path parameters\<close>

lemma hex_upper_digit:
  "d < 16 \<Longrightarrow> hex_upper d \<in> set ''0123456789ABCDEF''"
  unfolding hex_upper_def by (rule nth_mem) simp

lemma encode_char_alphabet:
  "set (encode_char c) \<subseteq> set uriUnreserved \<union> set ''%0123456789ABCDEF''"
proof (cases "c \<in> set uriUnreserved")
  case True
  then show ?thesis by (simp add: encode_char_def)
next
  case False
  define H where "H = set ''%0123456789ABCDEF''"
  have sub: "set ''0123456789ABCDEF'' \<subseteq> H" and pct: "CHR ''%'' \<in> H"
    by (simp_all add: H_def)
  have "(of_char c :: nat) < 256" by (rule nat_of_char_less_256)
  then have hi: "(of_char c :: nat) div 16 < 16" by arith
  have lo: "(of_char c :: nat) mod 16 < 16" by simp
  have "hex_upper (of_char c div 16) \<in> H"
    using hex_upper_digit [OF hi] sub by blast
  moreover have "hex_upper (of_char c mod 16) \<in> H"
    using hex_upper_digit [OF lo] sub by blast
  ultimately have "set (encode_char c) \<subseteq> H"
    using False pct by (simp add: encode_char_def)
  then show ?thesis unfolding H_def by blast
qed

lemma encodeURIComponent_alphabet:
  "set (encodeURIComponent s) \<subseteq> set uriUnreserved \<union> set ''%0123456789ABCDEF''"
  using encode_char_alphabet by (fastforce simp add: encodeURIComponent_def)

lemma encodeURIComponent_no_separator:
  "CHR ''/'' \<notin> set (encodeURIComponent s) \<and> CHR ''?'' \<notin> set (encodeURIComponent s)
   \<and> CHR ''#'' \<notin> set (encodeURIComponent s) \<and> CHR ''&'' \<notin> set (encodeURIComponent s)"
proof -
  have "CHR ''/'' \<notin> set uriUnreserved \<union> set ''%0123456789ABCDEF''"
       "CHR ''?'' \<notin> set uriUnreserved \<union> set ''%0123456789ABCDEF''"
       "CHR ''#'' \<notin> set uriUnreserved \<union> set ''%0123456789ABCDEF''"
       "CHR ''&'' \<notin> set uriUnreserved \<union> set ''%0123456789ABCDEF''"
    by (simp_all add: uriUnreserved_def)
  then show ?thesis using encodeURIComponent_alphabet [of s] by blast
qed

lemma axios_get_url:
  "axios_get u = Inr t \<Longrightarrow> request_url t = u"
  by (auto simp add: axios_get_def request_url_def)

text \<open>
  Claim C6, as stated, has trade identifiers percent-encoded like symbols and currencies.
  \<open>getTrade\<close> appends its argument as it is: for \<open>EUR/USD\<close> the URL keeps the slash.
\<close>

theorem tradeId_path_parameter_not_encoded:
  "issued_url (getTrade \<lparr>Date_now = 1700, hmac_sha256 = (@), base64 = rev\<rparr>
       \<lparr>web_api_address = ''http://x'', web_api_id = Some ''A'', web_api_key = Some ''B'',
        web_api_secret = Some ''C''\<rparr> ''EUR/USD'')
     = Some ''http://x/api/v2/trade/EUR/USD''
   \<and> ''http://x/api/v2/trade/EUR/USD''
        \<noteq> ''http://x/api/v2/trade/'' @ encodeURIComponent ''EUR/USD''"
  by (simp add: getTrade_def signed_def axios_def signRequest_axios_def issued_url_def
        request_url_def encodeURIComponent_def encode_char_def uriUnreserved_def hex_upper_def)

text \<open>
  Claim C6, amended. Every operation that takes a symbol name or a currency code puts
  \<open>encodeURIComponent\<close> of it after the path, so that only unreserved characters and
  \<open>%XX\<close> escapes reach the URL; \<open>getPublicSymbol("EUR/USD")\<close> asks for
  \<open>.../public/symbol/EUR%2FUSD\<close>. The operations that take a trade identifier in the
  path, \<open>getTrade\<close> and \<open>getTradeHistoryByTradeId\<close>, append it unchanged.
\<close>

theorem symbol_and_currency_parameters_encoded:
  assumes "invoke rt this call = Inr t"
  shows "(call = GetPublicCurrency p \<longrightarrow> request_url t =
            web_api_address this @ ''/api/v2/public/currency/'' @ encodeURIComponent p)
       \<and> (call = GetPublicSymbol p \<longrightarrow> request_url t =
            web_api_address this @ ''/api/v2/public/symbol/'' @ encodeURIComponent p)
       \<and> (call = GetPublicTick p \<longrightarrow> request_url t =
            web_api_address this @ ''/api/v2/public/tick/'' @ encodeURIComponent p)
       \<and> (call = GetPublicTickLevel2 p \<longrightarrow> request_url t =
            web_api_address this @ ''/api/v2/public/level2/'' @ encodeURIComponent p)
       \<and> (call = GetCurrency p \<longrightarrow> request_url t =
            web_api_address this @ ''/api/v2/currency/'' @ encodeURIComponent p)
       \<and> (call = GetSymbol p \<longrightarrow> request_url t =
            web_api_address this @ ''/api/v2/symbol/'' @ encodeURIComponent p)
       \<and> (call = GetTick p \<longrightarrow> request_url t =
            web_api_address this @ ''/api/v2/tick/'' @ encodeURIComponent p)
       \<and> (call = GetTickLevel2 p \<longrightarrow> request_url t =
            web_api_address this @ ''/api/v2/level2/'' @ encodeURIComponent p)
       \<and> (call = GetAsset p \<longrightarrow> request_url t =
            web_api_address this @ ''/api/v2/asset/'' @ encodeURIComponent p)
       \<and> (call = GetPosition p \<longrightarrow> request_url t =
            web_api_address this @ ''/api/v2/position/'' @ encodeURIComponent p)
       \<and> (call = GetTrade p \<longrightarrow> request_url t =
            web_api_address this @ ''/api/v2/trade/'' @ p)
       \<and> (call = GetTradeHistoryByTradeId p r \<longrightarrow> request_url t =
            web_api_address this @ ''/api/v2/tradehistory/'' @ p)
       \<and> set (encodeURIComponent p) \<subseteq> set uriUnreserved \<union> set ''%0123456789ABCDEF''
       \<and> encodeURIComponent ''EUR/USD'' = ''EUR%2FUSD''"
proof -
  have enc: "encodeURIComponent ''EUR/USD'' = ''EUR%2FUSD''"
    by (simp add: encodeURIComponent_def encode_char_def uriUnreserved_def hex_upper_def)
  have pub: "\<And>u. axios_get u = Inr t \<Longrightarrow> request_url t = u"
    by (rule axios_get_url)
  have priv: "\<And>c. signed rt this c = Inr t \<Longrightarrow> request_url t = url c"
    by (rule signed_url)
  show ?thesis
    using assms enc encodeURIComponent_alphabet [of p]
    by (auto simp only: invoke.simps getPublicCurrency_def getPublicSymbol_def getPublicTick_def
          getPublicTickLevel2_def getCurrency_def getSymbol_def getTick_def getTickLevel2_def
          getAsset_def getPosition_def getTrade_def getTradeHistoryByTradeId_def
          config.simps dest!: pub priv)
qed


theorem symbol_and_currency_parameters_encoded_witness:
  "invoke \<lparr>Date_now = 1700, hmac_sha256 = (@), base64 = rev\<rparr>
     \<lparr>web_api_address = ''http://x'', web_api_id = None, web_api_key = None,
      web_api_secret = None\<rparr> (GetPublicSymbol ''EUR/USD'')
     = Inr (AxiosGet ''http://x/api/v2/public/symbol/EUR%2FUSD'')
   \<and> request_url (AxiosGet ''http://x/api/v2/public/symbol/EUR%2FUSD'')
     = ''http://x'' @ ''/api/v2/public/symbol/'' @ encodeURIComponent ''EUR/USD''"
proof -
  have run: "invoke \<lparr>Date_now = 1700, hmac_sha256 = (@), base64 = rev\<rparr>
     \<lparr>web_api_address = ''http://x'', web_api_id = None, web_api_key = None,
      web_api_secret = None\<rparr> (GetPublicSymbol ''EUR/USD'')
     = Inr (AxiosGet ''http://x/api/v2/public/symbol/EUR%2FUSD'')"
    by (simp add: getPublicSymbol_def axios_get_def encodeURIComponent_def encode_char_def
          uriUnreserved_def hex_upper_def)
  show ?thesis
    using run symbol_and_currency_parameters_encoded [OF run, of "''EUR/USD''"]
    by simp
qed


section \<open>What the browser client signs and what it sends\<close>

lemma signature_text_object_body:
  "signature_text t i k \<lparr>method = m, url = u, data = Some (JObj kvs), headers = h\<rparr>
     = decimal t @ i @ k @ toUpperCase m @ u @ JSON_stringify (JObj kvs)"
  by (simp add: signature_text_def body_text_def)

lemma object_text_differs:
  "js_toString (JObj kvs) \<noteq> JSON_stringify (JObj kvs)"
  by simp

lemma authAjax_object_body:
  assumes "web_api_id this = Some i" "i \<noteq> []" "web_api_key this = Some k" "k \<noteq> []"
    "web_api_secret this = Some s" "s \<noteq> []"
  shows "\<exists>req. authAjax rt this u (Some ty) (Some (JObj kvs)) = Inr req
           \<and> ajax_url req = u \<and> ajax_type req = ty
           \<and> ajax_data req = Some (JSON_stringify (JObj kvs))
           \<and> ajax_headers req ''Authorization'' =
               Some (''HMAC '' @ i @ '':'' @ k @ '':'' @ decimal (Date_now rt) @ '':'' @
                     base64 rt (hmac_sha256 rt s
                       (decimal (Date_now rt) @ i @ k @ ty @ u @ ''[object Object]'')))"
  using assms
  by (simp add: authAjax_def Let_def signRequest_valid signature_text_ajax_def)

lemma number_toString_1000:
  "number_toString 1000 = ''1000''"
  by (simp add: number_toString_def decimal.simps digit_char_def)

text \<open>
  Claim C3 asks that the body text in the signed string be the serialization that is sent.
  In the browser client \<open>_authAjax\<close> sends \<open>JSON.stringify(data)\<close> but passes the
  object itself to \<open>signRequest\<close>, which concatenates it: the signed text ends in
  \<open>[object Object]\<close>. The run below is \<open>createTrade\<close> on the specification's example;
  the URL and the method token signed are those sent. The Node client signs the JSON text
  (\<open>signature_text_object_body\<close>).
\<close>

theorem authAjax_signs_coerced_body:
  \<open>createTrade_ajax rt
     \<lparr>web_api_address = ''http://x'', web_api_id = Some ''A'', web_api_key = Some ''B'',
      web_api_secret = Some ''C''\<rparr>
     (Some (JObj [(''type'', JStr ''Market''), (''side'', JStr ''Buy''),
                  (''symbol'', JStr ''EURUSD''), (''amount'', JNum 1000)]))
   = Inr \<lparr>ajax_url = ''http://x/api/v2/trade'', ajax_type = ''POST'',
          ajax_data = Some ''{"type":"Market","side":"Buy","symbol":"EURUSD","amount":1000}'',
          ajax_contentType = Some ''application/json; charset=UTF-8'',
          ajax_headers =
            [''Authorization'' \<mapsto>
               ''HMAC A:B:'' @ decimal (Date_now rt) @ '':'' @
               base64 rt (hmac_sha256 rt ''C''
                 (decimal (Date_now rt) @ ''ABPOSThttp://x/api/v2/trade[object Object]''))]\<rparr>\<close>
  by (simp add: createTrade_ajax_def authAjax_def Let_def signRequest_valid
        signature_text_ajax_def QuoteJSONString_def quote_char_def number_toString_1000)

end
